theory Spec2Isabelle
  imports Complex_Main "HOL-Library.AList"
begin

section \<open>Order Monitor: age-based polling cadence\<close>

text \<open>
  \<^verbatim>\<open>getBackoffInterval(ageMs)\<close> of the order monitor. Ages and intervals are
  millisecond counts obtained by subtracting two \<^verbatim>\<open>Date\<close> timestamps, hence
  integers; an order created in the future has a negative age. (An invalid \<^verbatim>\<open>Date\<close>,
  whose time is \<^verbatim>\<open>NaN\<close>, is not an age and is outside this model.)
\<close>

definition getBackoffInterval :: "int \<Rightarrow> int" where
  "getBackoffInterval ageMs =
     (if ageMs < 5 * 60000 then 15000
      else if ageMs < 30 * 60000 then 60000
      else if ageMs < 2 * 3600000 then 5 * 60000
      else 15 * 60000)"

text \<open>Units used by the specification's table, in milliseconds.\<close>

definition seconds :: "int \<Rightarrow> int" where
  "seconds n = n * 1000"

definition minutes :: "int \<Rightarrow> int" where
  "minutes n = n * 60 * 1000"

definition hours :: "int \<Rightarrow> int" where
  "hours n = n * 60 * 60 * 1000"

section \<open>Aggregator client: how HTTP outcomes are surfaced\<close>

text \<open>
  The aggregator's order-status object (\<^verbatim>\<open>SideShiftOrderStatus\<close>). The monitor reads
  only \<open>status\<close> and hands the whole object to its listener. Its \<^verbatim>\<open>id\<close>,
  \<^verbatim>\<open>createdAt\<close>, \<^verbatim>\<open>updatedAt\<close> and \<^verbatim>\<open>error\<close> members are named \<open>shiftId\<close>,
  \<open>shiftCreatedAt\<close>, \<open>shiftUpdatedAt\<close> and \<open>shiftError\<close> here.
\<close>

record AddressMemo =
  address :: string
  memo :: "string option"

record SideShiftOrderStatus =
  shiftId :: string
  status :: string
  depositCoin :: string
  depositNetwork :: string
  settleCoin :: string
  settleNetwork :: string
  depositAddress :: AddressMemo
  settleAddress :: AddressMemo
  depositAmount :: "string option"
  settleAmount :: "string option"
  depositHash :: "string option"
  settleHash :: "string option"
  shiftCreatedAt :: string
  shiftUpdatedAt :: string
  shiftError :: "(string \<times> string) option"

text \<open>
  What an \<^verbatim>\<open>axios\<close> call can end in. A 2xx reply resolves with its body, which
  \<^verbatim>\<open>validateResponse\<close> then accepts (\<open>Some\<close> of the parsed object) or rejects. A
  reply with any other status rejects with an Axios error that carries the response:
  its HTTP status, the \<^verbatim>\<open>Retry-After\<close> header when present, and the body's
  \<^verbatim>\<open>error.code\<close> and \<^verbatim>\<open>error.message\<close> when present. A timeout or network failure
  rejects with an Axios error that has no response.
\<close>

datatype 'a axios_outcome =
    Resolved "'a option"
  | ErrorResponse (httpStatus: nat) (retryAfter: "nat option")
      (errorCode: "string option") (errorMessage: "string option")
  | NoResponse

text \<open>The only thing a client function throws: a JavaScript \<^verbatim>\<open>Error\<close>, which holds a message.\<close>

datatype js_error = Error (message: string)

text \<open>\<^verbatim>\<open>x || fallback\<close> on an optional string: the empty string is falsy too.\<close>

definition or_else :: "string option \<Rightarrow> string \<Rightarrow> string" where
  "or_else x fallback = (case x of None \<Rightarrow> fallback | Some s \<Rightarrow> if s = [] then fallback else s)"

text \<open>
  The \<^verbatim>\<open>try { ... validateResponse ... } catch\<close> frame shared by \<^verbatim>\<open>createOrder\<close> and
  \<^verbatim>\<open>getOrderStatus\<close>: a validation failure is a plain \<^verbatim>\<open>Error\<close>, not an Axios error,
  so the handler replaces it by the fallback message.
\<close>

definition surface :: "string \<Rightarrow> 'a axios_outcome \<Rightarrow> js_error + 'a" where
  "surface fallback r =
     (case r of
        Resolved (Some v) \<Rightarrow> Inr v
      | Resolved None \<Rightarrow> Inl (Error fallback)
      | ErrorResponse st ra c m \<Rightarrow> Inl (Error (or_else m fallback))
      | NoResponse \<Rightarrow> Inl (Error fallback))"

definition getOrderStatus :: "SideShiftOrderStatus axios_outcome \<Rightarrow> js_error + SideShiftOrderStatus" where
  "getOrderStatus r = surface ''Failed to get order status'' r"

text \<open>
  Of \<^verbatim>\<open>SideShiftOrder\<close> and \<^verbatim>\<open>SideShiftQuote\<close>, the members their callers read.
  An order's \<^verbatim>\<open>depositAddress\<close> is a string or an object with address and memo.
\<close>

record SideShiftOrder =
  order_id :: string
  order_depositAddress :: "string + (string \<times> string)"
  order_status :: "string option"

definition createOrder :: "SideShiftOrder axios_outcome \<Rightarrow> js_error + SideShiftOrder" where
  "createOrder r = surface ''Failed to create order'' r"

record SideShiftQuote =
  quote_id :: string
  quote_settleAmount :: string
  quote_error :: "(string \<times> string) option"

text \<open>
  \<^verbatim>\<open>createQuote\<close> and \<^verbatim>\<open>createCheckout\<close> also throw when the validated body carries
  an \<^verbatim>\<open>error\<close> member; that throw happens inside the same \<^verbatim>\<open>try\<close>, so the handler
  replaces its message by the fallback as well.
\<close>

definition createQuote :: "string \<Rightarrow> string \<Rightarrow> SideShiftQuote axios_outcome \<Rightarrow> js_error + SideShiftQuote" where
  "createQuote fromAsset toAsset r =
     (let fallback = ''Failed to create quote for '' @ fromAsset @ '' to '' @ toAsset in
      case surface fallback r of
        Inl e \<Rightarrow> Inl e
      | Inr q \<Rightarrow> (case quote_error q of Some e \<Rightarrow> Inl (Error fallback) | None \<Rightarrow> Inr q))"

record SideShiftCheckoutResponse =
  checkout_id :: string
  checkout_url :: string
  checkout_error :: "(string \<times> string) option"

definition createCheckout :: "string \<Rightarrow> SideShiftCheckoutResponse axios_outcome \<Rightarrow> js_error + SideShiftCheckoutResponse" where
  "createCheckout checkoutBase r =
     (case surface ''Failed to create checkout'' r of
        Inl e \<Rightarrow> Inl e
      | Inr c \<Rightarrow>
          (case checkout_error c of
             Some e \<Rightarrow> Inl (Error ''Failed to create checkout'')
           | None \<Rightarrow> Inr (c\<lparr>checkout_url :=
                (if checkout_url c = [] then checkoutBase @ ''/'' @ checkout_id c else checkout_url c)\<rparr>)))"


section \<open>Order Monitor\<close>

text \<open>
  A tracked order and the monitor's state. Timestamps are milliseconds since the epoch.
  \<^verbatim>\<open>tracked\<close> is a JavaScript \<^verbatim>\<open>Map\<close>, which keeps insertion order: an association
  list with distinct keys, where \<^verbatim>\<open>set\<close> on a new key appends (\<^const>\<open>AList.update\<close>)
  and \<^verbatim>\<open>delete\<close> removes the key (\<^const>\<open>AList.delete\<close>).
\<close>

record TrackedOrder =
  orderId :: string
  telegramId :: int
  createdAt :: int
  lastChecked :: int
  lastStatus :: string

record OrderMonitor =
  tracked :: "(string \<times> TrackedOrder) list"
  activePollCount :: int

text \<open>
  The monitor reaches the outside world only through its injected \<^verbatim>\<open>OrderMonitorDeps\<close>.
  Every call it makes is recorded, in order, as a \<open>dep_call\<close>; the interface has no
  other operation than these (\<^verbatim>\<open>getPendingOrders\<close> and \<^verbatim>\<open>getPendingWatchedOrders\<close>
  are used by \<^verbatim>\<open>loadPendingOrders\<close> only).
\<close>

datatype dep_call =
    GetOrderStatus string
  | UpdateOrderStatus string string
  | UpdateWatchedOrderStatus string string
  | AddWatchedOrder int string string
  | OnStatusChange int string string string SideShiftOrderStatus

text \<open>
  What the dependencies answer during one tick: the outcome of \<^verbatim>\<open>getOrderStatus\<close> for
  an order id (a thrown error or the status object), whether the listener returns
  normally (\<open>True\<close>) or throws, and the value of \<^verbatim>\<open>Date.now()\<close> when the answer for
  an order arrives. Rejections of \<^verbatim>\<open>updateOrderStatus\<close>, \<^verbatim>\<open>updateWatchedOrderStatus\<close>
  and \<^verbatim>\<open>addWatchedOrder\<close> are swallowed by the source (\<^verbatim>\<open>Promise.allSettled\<close>,
  \<^verbatim>\<open>.catch\<close>) and do not change what the monitor does.
\<close>

record OrderMonitorDeps =
  dep_getOrderStatus :: "string \<Rightarrow> js_error + SideShiftOrderStatus"
  dep_onStatusChange :: "int \<Rightarrow> string \<Rightarrow> string \<Rightarrow> string \<Rightarrow> SideShiftOrderStatus \<Rightarrow> bool"
  dep_dateNow :: "string \<Rightarrow> int"

definition TERMINAL_STATUSES :: "string set" where
  "TERMINAL_STATUSES = {''settled'', ''expired'', ''refunded'', ''failed''}"

definition MAX_CONCURRENT :: int where
  "MAX_CONCURRENT = 5"

definition TICK_INTERVAL :: int where
  "TICK_INTERVAL = 10000"

definition has :: "(string \<times> TrackedOrder) list \<Rightarrow> string \<Rightarrow> bool" where
  "has m k = (map_of m k \<noteq> None)"

text \<open>\<^verbatim>\<open>trackOrder(orderId, telegramId, createdAt?)\<close>; \<open>now\<close> is \<^verbatim>\<open>new Date()\<close>.\<close>

definition trackOrder ::
  "string \<Rightarrow> int \<Rightarrow> int option \<Rightarrow> int \<Rightarrow> OrderMonitor \<Rightarrow> OrderMonitor \<times> dep_call list" where
  "trackOrder oid tid created now m =
     (if has (tracked m) oid then (m, [])
      else (m\<lparr>tracked := AList.update oid
                \<lparr>orderId = oid, telegramId = tid,
                 createdAt = (case created of Some c \<Rightarrow> c | None \<Rightarrow> now),
                 lastChecked = 0, lastStatus = ''pending''\<rparr> (tracked m)\<rparr>,
            [AddWatchedOrder tid oid ''pending'']))"

definition untrackOrder :: "string \<Rightarrow> OrderMonitor \<Rightarrow> OrderMonitor" where
  "untrackOrder oid m = m\<lparr>tracked := AList.delete oid (tracked m)\<rparr>"

text \<open>
  \<^verbatim>\<open>pollOrder\<close> mutates the \<^verbatim>\<open>TrackedOrder\<close> object it was given, which is the object
  stored in the map: \<open>store\<close> writes the mutated object back to its entry, and does
  nothing when the map no longer holds that key.
\<close>

definition store :: "TrackedOrder \<Rightarrow> OrderMonitor \<Rightarrow> OrderMonitor" where
  "store ord m =
     m\<lparr>tracked := map (\<lambda>(k, v). if k = orderId ord then (k, ord) else (k, v)) (tracked m)\<rparr>"

definition pollOrder ::
  "OrderMonitorDeps \<Rightarrow> TrackedOrder \<Rightarrow> OrderMonitor \<Rightarrow> OrderMonitor \<times> dep_call list" where
  "pollOrder deps ord m =
     (let oid = orderId ord;
          m1 = m\<lparr>activePollCount := activePollCount m + 1\<rparr>;
          finally = (\<lambda>s. s\<lparr>activePollCount := activePollCount s - 1\<rparr>)
      in case dep_getOrderStatus deps oid of
           Inl e \<Rightarrow> (finally m1, [GetOrderStatus oid])
         | Inr st \<Rightarrow>
             (let ord1 = ord\<lparr>lastChecked := dep_dateNow deps oid\<rparr>;
                  newStatus = status st;
                  oldStatus = lastStatus ord
              in if newStatus \<noteq> oldStatus then
                   (let ord2 = ord1\<lparr>lastStatus := newStatus\<rparr>;
                        m2 = store ord2 m1;
                        calls = [GetOrderStatus oid,
                                 UpdateOrderStatus oid newStatus,
                                 UpdateWatchedOrderStatus oid newStatus,
                                 OnStatusChange (telegramId ord) oid oldStatus newStatus st]
                    in if dep_onStatusChange deps (telegramId ord) oid oldStatus newStatus st then
                         (if newStatus \<in> TERMINAL_STATUSES
                          then (finally (untrackOrder oid m2), calls)
                          else (finally m2, calls))
                       else (finally m2, calls))
                 else (finally (store ord1 m1), [GetOrderStatus oid])))"

text \<open>
  \<^verbatim>\<open>Promise.allSettled(batch.map(order => this.pollOrder(order)))\<close>: the polls of a batch
  are run one after the other. Each poll reads and writes only the entry of its own
  order, so the resulting state does not depend on the order in which the answers arrive.
\<close>

fun pollAll ::
  "OrderMonitorDeps \<Rightarrow> TrackedOrder list \<Rightarrow> OrderMonitor \<Rightarrow> OrderMonitor \<times> dep_call list" where
  "pollAll deps [] m = (m, [])"
| "pollAll deps (ord # rest) m =
     (let (m1, c1) = pollOrder deps ord m;
          (m2, c2) = pollAll deps rest m1
      in (m2, c1 @ c2))"

text \<open>\<^verbatim>\<open>xs.slice(0, e)\<close>: a negative end counts from the end of the array.\<close>

definition slice0 :: "'a list \<Rightarrow> int \<Rightarrow> 'a list" where
  "slice0 xs e = (if e < 0 then take (nat (int (length xs) + e)) xs else take (nat e) xs)"

definition isDue :: "int \<Rightarrow> TrackedOrder \<Rightarrow> bool" where
  "isDue now ord = (now - lastChecked ord \<ge> getBackoffInterval (now - createdAt ord))"

definition tick :: "OrderMonitorDeps \<Rightarrow> int \<Rightarrow> OrderMonitor \<Rightarrow> OrderMonitor \<times> dep_call list" where
  "tick deps now m =
     (let toPoll = filter (isDue now) (map snd (tracked m)) in
      if toPoll = [] then (m, [])
      else let batch = slice0 toPoll (MAX_CONCURRENT - activePollCount m) in
           if batch = [] then (m, []) else pollAll deps batch m)"

text \<open>The poll requests a list of dependency calls contains.\<close>

definition pollRequests :: "dep_call list \<Rightarrow> string list" where
  "pollRequests cs = concat (map (\<lambda>c. case c of GetOrderStatus k \<Rightarrow> [k] | _ \<Rightarrow> []) cs)"

definition listenerCalls :: "dep_call list \<Rightarrow> dep_call list" where
  "listenerCalls cs = filter (\<lambda>c. case c of OnStatusChange t k a b d \<Rightarrow> True | _ \<Rightarrow> False) cs"

text \<open>
  Each entry of the map is stored under the \<^verbatim>\<open>orderId\<close> of its object: \<^verbatim>\<open>trackOrder\<close>
  and \<^verbatim>\<open>loadPendingOrders\<close> create entries that way.
\<close>

definition keyed :: "OrderMonitor \<Rightarrow> bool" where
  "keyed m = (\<forall>(k, v) \<in> set (tracked m). orderId v = k)"

text \<open>A run of ticks, each with the answers the dependencies give during it and its \<^verbatim>\<open>Date.now()\<close>.\<close>

fun ticks :: "(OrderMonitorDeps \<times> int) list \<Rightarrow> OrderMonitor \<Rightarrow> OrderMonitor \<times> dep_call list" where
  "ticks [] m = (m, [])"
| "ticks ((deps, now) # rest) m =
     (let (m1, c1) = tick deps now m;
          (m2, c2) = ticks rest m1
      in (m2, c1 @ c2))"

section \<open>Persistence\<close>

text \<open>
  The tables the monitor and the scheduler write, and the specification's StatusLog.
  The scheduler's writes are in its source (\<^verbatim>\<open>tx.insert\<close>, \<^verbatim>\<open>tx.update\<close>); rows
  carry the columns those writes set. No source file writes a status log.
\<close>

record OrderRow =
  o_telegramId :: int
  o_sideshiftOrderId :: string
  o_quoteId :: string
  o_fromAsset :: string
  o_fromNetwork :: string
  o_fromAmount :: string
  o_toAsset :: string
  o_toNetwork :: string
  o_settleAmount :: string
  o_depositAddress :: string
  o_depositMemo :: "string option"
  o_status :: string

record WatchedOrderRow =
  w_telegramId :: int
  w_sideshiftOrderId :: string
  w_lastStatus :: string

record DCASchedule =
  dca_id :: int
  dca_telegramId :: int
  dca_fromAsset :: string
  dca_fromNetwork :: string
  dca_toAsset :: string
  dca_toNetwork :: string
  dca_amountPerOrder :: string
  dca_intervalHours :: int
  dca_isActive :: int
  dca_nextExecutionAt :: int
  dca_ordersExecuted :: int

record StatusLogRow =
  log_orderId :: string
  log_oldStatus :: string
  log_newStatus :: string

record database =
  orders :: "OrderRow list"
  watchedOrders :: "WatchedOrderRow list"
  dcaSchedules :: "DCASchedule list"
  statusLog :: "StatusLogRow list"

text \<open>
  \<^verbatim>\<open>insert(watchedOrders).values(...).onConflictDoNothing()\<close>: the table is unique on
  the order id, and a conflicting insert leaves it unchanged.
\<close>

definition insertWatchedOrder :: "WatchedOrderRow \<Rightarrow> database \<Rightarrow> database" where
  "insertWatchedOrder row db =
     (if w_sideshiftOrderId row \<in> set (map w_sideshiftOrderId (watchedOrders db)) then db
      else db\<lparr>watchedOrders := watchedOrders db @ [row]\<rparr>)"

text \<open>
  Modelled from the spec: the database functions behind \<^verbatim>\<open>OrderMonitorDeps\<close>
  (\<^verbatim>\<open>addWatchedOrder\<close>, \<^verbatim>\<open>updateOrderStatus\<close>, \<^verbatim>\<open>updateWatchedOrderStatus\<close>) live in
  the bot's \<^verbatim>\<open>database\<close> module, whose source is not available. Per the specification, \<^verbatim>\<open>track\<close> "inserts a WatchedOrder row
  (on-conflict-do-nothing)" and a status update sets the status of the Order row, respectively
  the last-known status of the WatchedOrder row, with that order id. The listener and
  the status request write nothing.
\<close>

fun persist :: "dep_call \<Rightarrow> database \<Rightarrow> database" where
  "persist (AddWatchedOrder tid oid st) db =
     insertWatchedOrder \<lparr>w_telegramId = tid, w_sideshiftOrderId = oid, w_lastStatus = st\<rparr> db"
| "persist (UpdateOrderStatus oid st) db =
     db\<lparr>orders := map (\<lambda>r. if o_sideshiftOrderId r = oid then r\<lparr>o_status := st\<rparr> else r) (orders db)\<rparr>"
| "persist (UpdateWatchedOrderStatus oid st) db =
     db\<lparr>watchedOrders :=
          map (\<lambda>r. if w_sideshiftOrderId r = oid then r\<lparr>w_lastStatus := st\<rparr> else r) (watchedOrders db)\<rparr>"
| "persist (GetOrderStatus oid) db = db"
| "persist (OnStatusChange tid oid old new st) db = db"

definition persistAll :: "dep_call list \<Rightarrow> database \<Rightarrow> database" where
  "persistAll cs db = fold persist cs db"

text \<open>The WatchedOrder rows of an order.\<close>

definition watchedRows :: "string \<Rightarrow> database \<Rightarrow> WatchedOrderRow list" where
  "watchedRows oid db = filter (\<lambda>r. w_sideshiftOrderId r = oid) (watchedOrders db)"


section \<open>DCA Scheduler\<close>

definition RETRY_DELAY_MINUTES :: int where
  "RETRY_DELAY_MINUTES = 5"

definition MAX_PROCESSING_TIME_MINUTES :: int where
  "MAX_PROCESSING_TIME_MINUTES = 10"

text \<open>
  The claim transaction of \<^verbatim>\<open>processSchedules\<close>, as one instance runs it alone: select
  the active schedules due at \<open>now\<close>, move their \<^verbatim>\<open>nextExecutionAt\<close> to the lock time
  (\<open>lockNow\<close> is the \<^verbatim>\<open>new Date()\<close> taken inside the transaction), return the rows as
  selected.
\<close>

definition isDueSchedule :: "int \<Rightarrow> DCASchedule \<Rightarrow> bool" where
  "isDueSchedule now s = (dca_isActive s = 1 \<and> dca_nextExecutionAt s \<le> now)"

definition claimDue :: "int \<Rightarrow> int \<Rightarrow> database \<Rightarrow> DCASchedule list \<times> database" where
  "claimDue now lockNow db =
     (let schedules = filter (isDueSchedule now) (dcaSchedules db) in
      if length schedules > 0 then
        (let lockTime = lockNow + minutes MAX_PROCESSING_TIME_MINUTES;
             ids = map dca_id schedules
         in (schedules,
             db\<lparr>dcaSchedules :=
                  map (\<lambda>s. if dca_id s \<in> set ids then s\<lparr>dca_nextExecutionAt := lockTime\<rparr> else s)
                    (dcaSchedules db)\<rparr>))
      else (schedules, db))"

definition setNextExecution :: "int \<Rightarrow> int \<Rightarrow> database \<Rightarrow> database" where
  "setNextExecution scheduleId t db =
     db\<lparr>dcaSchedules :=
          map (\<lambda>s. if dca_id s = scheduleId then s\<lparr>dca_nextExecutionAt := t\<rparr> else s) (dcaSchedules db)\<rparr>"

text \<open>\<^verbatim>\<open>next.setHours(next.getHours() + intervalHours)\<close>, without daylight-saving shifts.\<close>

definition calculateNextExecution :: "int \<Rightarrow> int \<Rightarrow> int" where
  "calculateNextExecution now intervalHours = now + hours intervalHours"

definition releaseLock :: "int \<Rightarrow> int \<Rightarrow> int \<Rightarrow> database \<Rightarrow> database" where
  "releaseLock now scheduleId intervalHours db =
     setNextExecution scheduleId (calculateNextExecution now intervalHours) db"

definition scheduleRetry :: "int \<Rightarrow> int \<Rightarrow> database \<Rightarrow> database" where
  "scheduleRetry now scheduleId db =
     setNextExecution scheduleId (now + minutes RETRY_DELAY_MINUTES) db"

text \<open>
  What \<^verbatim>\<open>executeSchedule\<close> meets outside the database: the user row \<^verbatim>\<open>getUser\<close> finds
  (its \<^verbatim>\<open>walletAddress\<close>, if any), the outcomes of the two aggregator requests, and the
  clock.
\<close>

record User =
  walletAddress :: "string option"

record dca_env =
  getUser :: "int \<Rightarrow> User option"
  quoteOutcome :: "SideShiftQuote axios_outcome"
  orderOutcome :: "SideShiftOrder axios_outcome"
  dateNow :: int

text \<open>
  The transaction that completes an execution: its three statements, in source order.
  The \<^verbatim>\<open>orders\<close> insert is taken to succeed.
\<close>

definition completeExecution ::
  "DCASchedule \<Rightarrow> SideShiftQuote \<Rightarrow> SideShiftOrder \<Rightarrow> database \<Rightarrow> database" where
  "completeExecution schedule quote ord db =
     (let depositAddr = (case order_depositAddress ord of Inl a \<Rightarrow> a | Inr (a, m) \<Rightarrow> a);
          depositMemo = (case order_depositAddress ord of
                           Inl a \<Rightarrow> None
                         | Inr (a, m) \<Rightarrow> if m = [] then None else Some m);
          db1 = db\<lparr>orders := orders db @
                  [\<lparr>o_telegramId = dca_telegramId schedule,
                    o_sideshiftOrderId = order_id ord,
                    o_quoteId = quote_id quote,
                    o_fromAsset = dca_fromAsset schedule,
                    o_fromNetwork = dca_fromNetwork schedule,
                    o_fromAmount = dca_amountPerOrder schedule,
                    o_toAsset = dca_toAsset schedule,
                    o_toNetwork = dca_toNetwork schedule,
                    o_settleAmount = quote_settleAmount quote,
                    o_depositAddress = depositAddr,
                    o_depositMemo = depositMemo,
                    o_status = ''pending''\<rparr>]\<rparr>;
          db2 = insertWatchedOrder
                  \<lparr>w_telegramId = dca_telegramId schedule,
                   w_sideshiftOrderId = order_id ord,
                   w_lastStatus = ''pending''\<rparr> db1
      in db2\<lparr>dcaSchedules :=
              map (\<lambda>s. if dca_id s = dca_id schedule
                        then s\<lparr>dca_ordersExecuted := dca_ordersExecuted s + 1\<rparr> else s)
                (dcaSchedules db2)\<rparr>)"

definition hasWallet :: "User option \<Rightarrow> string option" where
  "hasWallet u =
     (case u of
        None \<Rightarrow> None
      | Some usr \<Rightarrow> (case walletAddress usr of
                      None \<Rightarrow> None
                    | Some w \<Rightarrow> if w = [] then None else Some w))"

definition executeSchedule :: "dca_env \<Rightarrow> DCASchedule \<Rightarrow> database \<Rightarrow> database" where
  "executeSchedule env schedule db =
     (case hasWallet (getUser env (dca_telegramId schedule)) of
        None \<Rightarrow> releaseLock (dateNow env) (dca_id schedule) (dca_intervalHours schedule) db
      | Some wallet \<Rightarrow>
          (case createQuote (dca_fromAsset schedule) (dca_toAsset schedule) (quoteOutcome env) of
             Inl e \<Rightarrow> scheduleRetry (dateNow env) (dca_id schedule) db
           | Inr quote \<Rightarrow>
               if quote_error quote \<noteq> None then scheduleRetry (dateNow env) (dca_id schedule) db
               else
                 (case createOrder (orderOutcome env) of
                    Inl e \<Rightarrow> scheduleRetry (dateNow env) (dca_id schedule) db
                  | Inr ord \<Rightarrow>
                      if order_id ord = [] then scheduleRetry (dateNow env) (dca_id schedule) db
                      else completeExecution schedule quote ord db)))"

text \<open>A successful execution: the user has a wallet and both aggregator requests succeed.\<close>

definition executionSucceeds :: "dca_env \<Rightarrow> DCASchedule \<Rightarrow> bool" where
  "executionSucceeds env schedule =
     (hasWallet (getUser env (dca_telegramId schedule)) \<noteq> None \<and>
      (case createQuote (dca_fromAsset schedule) (dca_toAsset schedule) (quoteOutcome env) of
         Inl e \<Rightarrow> False
       | Inr quote \<Rightarrow>
           quote_error quote = None \<and>
           (case createOrder (orderOutcome env) of Inl e \<Rightarrow> False | Inr ord \<Rightarrow> order_id ord \<noteq> [])))"


section \<open>HTTP route handlers\<close>

subsection \<open>JavaScript values\<close>

text \<open>
  A JavaScript number is a finite value, an infinity or \<^verbatim>\<open>NaN\<close>. A value read from a
  JSON body or a JWT payload is undefined (member absent), null, a boolean, a number, a
  string, or an object or array.
\<close>

datatype jsnum = NaN | NegInf | Fin rat | PosInf

datatype json = JUndefined | JNull | JBool bool | JNum jsnum | JStr string | JObject

text \<open>Truthiness, as \<^verbatim>\<open>!x\<close> and \<^verbatim>\<open>x || y\<close> test it.\<close>

fun truthy :: "json \<Rightarrow> bool" where
  "truthy JUndefined = False"
| "truthy JNull = False"
| "truthy (JBool b) = b"
| "truthy (JNum n) = (n \<noteq> NaN \<and> n \<noteq> Fin 0)"
| "truthy (JStr s) = (s \<noteq> [])"
| "truthy JObject = True"

text \<open>\<^verbatim>\<open>n <= 0\<close> on numbers: every comparison with \<^verbatim>\<open>NaN\<close> is false.\<close>

fun leZero :: "jsnum \<Rightarrow> bool" where
  "leZero NaN = False"
| "leZero NegInf = True"
| "leZero (Fin r) = (r \<le> 0)"
| "leZero PosInf = False"


fun isNumber :: "json \<Rightarrow> bool" where
  "isNumber (JNum n) = True"
| "isNumber v = False"




text \<open>
  \<^verbatim>\<open>s.split(sep)\<close> for a non-empty separator: the pieces between successive
  occurrences of \<open>sep\<close>, found from the left. \<open>acc\<close> holds the current piece, reversed.
\<close>

fun splitFrom :: "string \<Rightarrow> string \<Rightarrow> string \<Rightarrow> string list" where
  "splitFrom sep acc [] = [rev acc]"
| "splitFrom sep acc (c # cs) =
     (if sep \<noteq> [] \<and> take (length sep) (c # cs) = sep
      then rev acc # splitFrom sep [] (drop (length sep) (c # cs))
      else splitFrom sep (c # acc) cs)"

definition splitString :: "string \<Rightarrow> string \<Rightarrow> string list" where
  "splitString s sep = splitFrom sep [] s"

definition startsWith :: "string \<Rightarrow> string \<Rightarrow> bool" where
  "startsWith s p = (take (length p) s = p)"

text \<open>Member access on a parsed object: an absent member is \<^verbatim>\<open>undefined\<close>.\<close>

definition member :: "(string \<times> json) list \<Rightarrow> string \<Rightarrow> json" where
  "member obj k = (case map_of obj k of None \<Rightarrow> JUndefined | Some v \<Rightarrow> v)"

text \<open>\<^verbatim>\<open>x || undefined\<close> on an optional string: the empty string becomes absent.\<close>

definition nonEmpty :: "string option \<Rightarrow> string option" where
  "nonEmpty x = (case x of None \<Rightarrow> None | Some s \<Rightarrow> if s = [] then None else Some s)"

subsection \<open>Requests, responses and the services behind the handlers\<close>

text \<open>
  The JSON body of a request: \<^verbatim>\<open>request.json()\<close> throws, or yields \<^verbatim>\<open>null\<close>, or yields
  a value whose members can be read (for a primitive value every member is undefined).
\<close>

datatype body = Unparsable | NullBody | Members "(string \<times> json) list"

record request =
  authorization :: "string option"
  searchParams :: "(string \<times> string) list"
  jsonBody :: body

record AdjustArgs =
  adminId :: json
  adminEmail :: string
  targetUserId :: json
  targetFirebaseUid :: string
  targetWallet :: "string option"
  adjustAction :: json
  adjustAmount :: json
  adjustNote :: json

text \<open>The calls a handler makes into \<^verbatim>\<open>@/lib/database\<close> and \<^verbatim>\<open>@/lib/admin-service\<close>.\<close>

datatype call =
    GetSwapHistory string jsnum
  | GetChatHistory string "string option" jsnum
  | AddChatMessage json json json json json json
  | ClearChatHistory string "string option"
  | GetUserSettings string
  | CreateOrUpdateUserSettings json json json json
  | GetAdminByFirebaseUid json
  | SelectUser json
  | AdjustTestnetCoins AdjustArgs
  | GetUserCoinLogs jsnum jsnum
  | GetCoinSupplyStats
  | GetCoinUsersList jsnum jsnum "string option" bool
  | GiftAllUsers json json jsnum json

record response =
  statusCode :: nat
  errorText :: "string option"
  calls :: "call list"

record Admin =
  adminName :: string
  adminMail :: string
  adminRole :: string

text \<open>
  What lies outside the handlers: the identity provider (\<^verbatim>\<open>adminAuth.verifyIdToken\<close>
  gives the verified \<^verbatim>\<open>uid\<close> or throws, \<open>None\<close>), the decoding of a JWT payload segment
  (\<^verbatim>\<open>JSON.parse(Buffer.from(part, 'base64url').toString('utf-8'))\<close> gives an object's
  members, or throws or gives \<^verbatim>\<open>null\<close>, \<open>None\<close>), the admin and user tables,
  \<^verbatim>\<open>process.env.DATABASE_URL\<close>, the built-in conversions \<^verbatim>\<open>parseInt\<close> and \<^verbatim>\<open>Number\<close>,
  and whether a service call throws.
\<close>

record env =
  verifyIdToken :: "string \<Rightarrow> (string \<times> string option) option"
  parsePayload :: "string \<Rightarrow> (string \<times> json) list option"
  getAdminByFirebaseUid :: "json \<Rightarrow> Admin option"
  selectUser :: "json \<Rightarrow> (string option \<times> string option) option"
  DATABASE_URL :: "string option"
  parseInt :: "string \<Rightarrow> jsnum"
  toNumber :: "json \<Rightarrow> jsnum"
  callThrows :: "call \<Rightarrow> bool"

definition reject :: "nat \<Rightarrow> string \<Rightarrow> response" where
  "reject code msg = \<lparr>statusCode = code, errorText = Some msg, calls = []\<rparr>"

text \<open>
  A handler's last service call, inside its \<^verbatim>\<open>try\<close>: when the call throws, the
  \<^verbatim>\<open>catch\<close> answers 500 with the handler's failure text.
\<close>

definition perform :: "env \<Rightarrow> call list \<Rightarrow> call \<Rightarrow> nat \<Rightarrow> string \<Rightarrow> response" where
  "perform e made c ok failure =
     (if callThrows e c then \<lparr>statusCode = 500, errorText = Some failure, calls = made @ [c]\<rparr>
      else \<lparr>statusCode = ok, errorText = None, calls = made @ [c]\<rparr>)"

subsection \<open>User-scoped routes\<close>

text \<open>
  The authentication block that opens every handler of \<^verbatim>\<open>/api/swap-history\<close>,
  \<^verbatim>\<open>/api/chat/history\<close> and \<^verbatim>\<open>/api/user/settings\<close>: the token is
  \<^verbatim>\<open>authHeader.split('Bearer ')[1]\<close> (undefined, \<open>None\<close>, if the array is that short, and
  then rejected by the provider), and the caller is the \<^verbatim>\<open>uid\<close> of the verified token.
\<close>

definition bearerToken :: "string \<Rightarrow> string option" where
  "bearerToken authHeader =
     (case splitString authHeader ''Bearer '' of a # idToken # rest \<Rightarrow> Some idToken | _ \<Rightarrow> None)"

definition firebaseAuth :: "env \<Rightarrow> request \<Rightarrow> response + string" where
  "firebaseAuth e req =
     (case authorization req of
        None \<Rightarrow> Inl (reject 401 ''Unauthorized: No token provided'')
      | Some authHeader \<Rightarrow>
          if \<not> startsWith authHeader ''Bearer '' then Inl (reject 401 ''Unauthorized: No token provided'')
          else (case bearerToken authHeader of
                  None \<Rightarrow> Inl (reject 401 ''Unauthorized: Invalid token'')
                | Some idToken \<Rightarrow>
                    (case verifyIdToken e idToken of
                       None \<Rightarrow> Inl (reject 401 ''Unauthorized: Invalid token'')
                     | Some (uid, email) \<Rightarrow> Inr uid)))"

definition limitParam :: "env \<Rightarrow> request \<Rightarrow> jsnum" where
  "limitParam e req =
     parseInt e (case nonEmpty (map_of (searchParams req) ''limit'') of None \<Rightarrow> ''50'' | Some l \<Rightarrow> l)"

definition swapHistory_GET :: "env \<Rightarrow> request \<Rightarrow> response" where
  "swapHistory_GET e req =
     (case firebaseAuth e req of
        Inl r \<Rightarrow> r
      | Inr authenticatedUserId \<Rightarrow>
          (case nonEmpty (map_of (searchParams req) ''userId'') of
             None \<Rightarrow> reject 400 ''userId is required''
           | Some userId \<Rightarrow>
               if userId \<noteq> authenticatedUserId then reject 403 ''Forbidden: User ID mismatch''
               else perform e [] (GetSwapHistory userId (limitParam e req)) 200
                      ''Failed to fetch swap history''))"

definition chatHistory_GET :: "env \<Rightarrow> request \<Rightarrow> response" where
  "chatHistory_GET e req =
     (case firebaseAuth e req of
        Inl r \<Rightarrow> r
      | Inr authenticatedUserId \<Rightarrow>
          (case nonEmpty (map_of (searchParams req) ''userId'') of
             None \<Rightarrow> reject 400 ''userId is required''
           | Some userId \<Rightarrow>
               if userId \<noteq> authenticatedUserId then reject 403 ''Forbidden: User ID mismatch''
               else perform e []
                      (GetChatHistory userId (nonEmpty (map_of (searchParams req) ''sessionId''))
                         (limitParam e req))
                      200 ''Failed to fetch chat history''))"

definition chatHistory_POST :: "env \<Rightarrow> request \<Rightarrow> response" where
  "chatHistory_POST e req =
     (case firebaseAuth e req of
        Inl r \<Rightarrow> r
      | Inr authenticatedUserId \<Rightarrow>
          (case jsonBody req of
             Members b \<Rightarrow>
               (let userId = member b ''userId''; role = member b ''role''; content = member b ''content'' in
                if \<not> truthy userId \<or> \<not> truthy role \<or> \<not> truthy content
                then reject 400 ''userId, role, and content are required''
                else if userId \<noteq> JStr authenticatedUserId then reject 403 ''Forbidden: User ID mismatch''
                else if role \<notin> {JStr ''user'', JStr ''assistant''}
                then reject 400 ''role must be either \"user\" or \"assistant\"''
                else perform e []
                       (AddChatMessage userId (member b ''walletAddress'') role content
                          (member b ''sessionId'') (member b ''metadata''))
                       201 ''Failed to add chat message'')
           | _ \<Rightarrow> reject 500 ''Failed to add chat message''))"

definition chatHistory_DELETE :: "env \<Rightarrow> request \<Rightarrow> response" where
  "chatHistory_DELETE e req =
     (case firebaseAuth e req of
        Inl r \<Rightarrow> r
      | Inr authenticatedUserId \<Rightarrow>
          (case nonEmpty (map_of (searchParams req) ''userId'') of
             None \<Rightarrow> reject 400 ''userId is required''
           | Some userId \<Rightarrow>
               if userId \<noteq> authenticatedUserId then reject 403 ''Forbidden: User ID mismatch''
               else perform e []
                      (ClearChatHistory userId (nonEmpty (map_of (searchParams req) ''sessionId'')))
                      200 ''Failed to clear chat history''))"

definition userSettings_GET :: "env \<Rightarrow> request \<Rightarrow> response" where
  "userSettings_GET e req =
     (case firebaseAuth e req of
        Inl r \<Rightarrow> r
      | Inr authenticatedUserId \<Rightarrow>
          if nonEmpty (DATABASE_URL e) = None then reject 500 ''Database configuration error''
          else (case nonEmpty (map_of (searchParams req) ''userId'') of
                  None \<Rightarrow> reject 400 ''userId is required''
                | Some userId \<Rightarrow>
                    if userId \<noteq> authenticatedUserId then reject 403 ''Forbidden: User ID mismatch''
                    else perform e [] (GetUserSettings userId) 200 ''Failed to fetch user settings''))"

definition userSettings_POST :: "env \<Rightarrow> request \<Rightarrow> response" where
  "userSettings_POST e req =
     (case firebaseAuth e req of
        Inl r \<Rightarrow> r
      | Inr authenticatedUserId \<Rightarrow>
          if nonEmpty (DATABASE_URL e) = None then reject 500 ''Database configuration error''
          else (case jsonBody req of
                  Members b \<Rightarrow>
                    (let userId = member b ''userId'' in
                     if \<not> truthy userId then reject 400 ''userId is required''
                     else if userId \<noteq> JStr authenticatedUserId
                     then reject 403 ''Forbidden: User ID mismatch''
                     else perform e []
                            (CreateOrUpdateUserSettings userId (member b ''walletAddress'')
                               (member b ''preferences'') (member b ''emailNotifications''))
                            200 ''Failed to update user settings'')
                | _ \<Rightarrow> reject 500 ''Failed to update user settings''))"

definition userSettings_PATCH :: "env \<Rightarrow> request \<Rightarrow> response" where
  "userSettings_PATCH e req = userSettings_POST e req"


subsection \<open>Admin coin routes\<close>

text \<open>\<^verbatim>\<open>a || b\<close> on values.\<close>

definition jsOr :: "json \<Rightarrow> json \<Rightarrow> json" where
  "jsOr a b = (if truthy a then a else b)"

text \<open>
  The fallback both \<^verbatim>\<open>decodeToken\<close> and \<^verbatim>\<open>verifyAdminToken\<close> take when verification
  throws: the payload segment of a three-part token is decoded without any signature
  check, and its \<^verbatim>\<open>user_id\<close>, \<^verbatim>\<open>sub\<close> or \<^verbatim>\<open>uid\<close> becomes the caller's id.
\<close>

definition rawPayload :: "env \<Rightarrow> string \<Rightarrow> (string \<times> json) list option" where
  "rawPayload e token =
     (let parts = splitString token ''.'' in
      if length parts \<noteq> 3 then None else parsePayload e (parts ! 1))"

definition payloadUid :: "(string \<times> json) list \<Rightarrow> json" where
  "payloadUid payload = jsOr (jsOr (member payload ''user_id'') (member payload ''sub'')) (member payload ''uid'')"

text \<open>\<^verbatim>\<open>decodeToken\<close>, defined alike in the adjust, stats and users routes.\<close>

definition decodeToken :: "env \<Rightarrow> string \<Rightarrow> json option" where
  "decodeToken e token =
     (case verifyIdToken e token of
        Some (uid, email) \<Rightarrow> Some (JStr uid)
      | None \<Rightarrow>
          (case rawPayload e token of
             None \<Rightarrow> None
           | Some payload \<Rightarrow> if truthy (payloadUid payload) then Some (payloadUid payload) else None))"


text \<open>
  The block that opens the handlers of the adjust, stats and users routes: bearer
  header, \<^verbatim>\<open>decodeToken\<close>, then the admin lookup for the decoded id.
\<close>

definition coinsAdminAuth :: "env \<Rightarrow> request \<Rightarrow> response + (json \<times> Admin)" where
  "coinsAdminAuth e req =
     (case authorization req of
        None \<Rightarrow> Inl (reject 401 ''Unauthorized'')
      | Some authHeader \<Rightarrow>
          if \<not> startsWith authHeader ''Bearer '' then Inl (reject 401 ''Unauthorized'')
          else (case decodeToken e (drop 7 authHeader) of
                  None \<Rightarrow> Inl (reject 401 ''Invalid token'')
                | Some uid \<Rightarrow>
                    if callThrows e (GetAdminByFirebaseUid uid)
                    then Inl \<lparr>statusCode = 500, errorText = Some ''Internal server error.'',
                              calls = [GetAdminByFirebaseUid uid]\<rparr>
                    else (case getAdminByFirebaseUid e uid of
                            None \<Rightarrow> Inl \<lparr>statusCode = 403, errorText = Some ''Forbidden'',
                                          calls = [GetAdminByFirebaseUid uid]\<rparr>
                          | Some admin \<Rightarrow> Inr (uid, admin))))"

text \<open>\<^verbatim>\<open>typeof amount !== 'number' || amount <= 0\<close>.\<close>

definition invalidAmount :: "json \<Rightarrow> bool" where
  "invalidAmount amount = (\<not> isNumber amount \<or> (case amount of JNum n \<Rightarrow> leZero n | _ \<Rightarrow> False))"

definition adjust_POST :: "env \<Rightarrow> request \<Rightarrow> response" where
  "adjust_POST e req =
     (case coinsAdminAuth e req of
        Inl r \<Rightarrow> r
      | Inr (uid, admin) \<Rightarrow>
          (case jsonBody req of
             Members b \<Rightarrow>
               (let targetUserId = member b ''targetUserId''; action = member b ''action'';
                    amount = member b ''amount''; note = member b ''note'';
                    lookedUp = [GetAdminByFirebaseUid uid]
                in if \<not> truthy targetUserId \<or> action \<notin> {JStr ''gift'', JStr ''deduct'', JStr ''reset''}
                   then \<lparr>statusCode = 400,
                         errorText = Some ''Missing or invalid fields: targetUserId, action'',
                         calls = lookedUp\<rparr>
                   else if (action = JStr ''gift'' \<or> action = JStr ''deduct'') \<and> invalidAmount amount
                   then \<lparr>statusCode = 400,
                         errorText = Some ''amount must be a positive number for gift/deduct'',
                         calls = lookedUp\<rparr>
                   else if callThrows e (SelectUser targetUserId)
                   then \<lparr>statusCode = 500, errorText = Some ''Internal server error.'',
                         calls = lookedUp @ [SelectUser targetUserId]\<rparr>
                   else (case selectUser e targetUserId of
                           Some (Some firebaseUid, wallet) \<Rightarrow>
                             if firebaseUid = []
                             then \<lparr>statusCode = 404,
                                   errorText = Some ''User not found or has no firebase_uid'',
                                   calls = lookedUp @ [SelectUser targetUserId]\<rparr>
                             else perform e (lookedUp @ [SelectUser targetUserId])
                                    (AdjustTestnetCoins
                                       \<lparr>adminId = uid, adminEmail = adminMail admin,
                                        targetUserId = targetUserId,
                                        targetFirebaseUid = firebaseUid,
                                        targetWallet = wallet,
                                        adjustAction = action,
                                        adjustAmount = (if action = JStr ''reset'' then JNum (Fin 0) else amount),
                                        adjustNote = note\<rparr>)
                                    200 ''Internal server error.''
                         | _ \<Rightarrow> \<lparr>statusCode = 404,
                                  errorText = Some ''User not found or has no firebase_uid'',
                                  calls = lookedUp @ [SelectUser targetUserId]\<rparr>))
           | _ \<Rightarrow> \<lparr>statusCode = 500, errorText = Some ''Internal server error.'',
                    calls = [GetAdminByFirebaseUid uid]\<rparr>))"






section \<open>Example data\<close>

definition pendingOrder :: TrackedOrder where
  "pendingOrder =
     \<lparr>orderId = ''X1'', telegramId = 7, createdAt = 0, lastChecked = 0, lastStatus = ''pending''\<rparr>"

definition processingOrder :: TrackedOrder where
  "processingOrder =
     \<lparr>orderId = ''X1'', telegramId = 7, createdAt = 0, lastChecked = 90000, lastStatus = ''processing''\<rparr>"

definition settledStatus :: SideShiftOrderStatus where
  "settledStatus =
     \<lparr>shiftId = ''X1'', status = ''settled'',
      depositCoin = ''usdc'', depositNetwork = ''ethereum'',
      settleCoin = ''btc'', settleNetwork = ''bitcoin'',
      depositAddress = \<lparr>address = ''0xd'', memo = None\<rparr>,
      settleAddress = \<lparr>address = ''bc1s'', memo = None\<rparr>,
      depositAmount = Some ''100'', settleAmount = Some ''0.001'',
      depositHash = Some ''0xaa'', settleHash = Some ''0xbb'',
      shiftCreatedAt = ''2026-01-01T00:00:00Z'', shiftUpdatedAt = ''2026-01-01T00:05:00Z'',
      shiftError = None\<rparr>"

text \<open>The aggregator answers every status request with 429 and \<^verbatim>\<open>Retry-After: 30\<close>.\<close>

definition rateLimitedDeps :: OrderMonitorDeps where
  "rateLimitedDeps =
     \<lparr>dep_getOrderStatus = (\<lambda>k. getOrderStatus (ErrorResponse 429 (Some 30) None None)),
      dep_onStatusChange = (\<lambda>t k a b d. True),
      dep_dateNow = (\<lambda>k. 20000)\<rparr>"

text \<open>The aggregator answers with the settled order; the listener returns normally.\<close>

definition settledDeps :: OrderMonitorDeps where
  "settledDeps =
     \<lparr>dep_getOrderStatus = (\<lambda>k. getOrderStatus (Resolved (Some settledStatus))),
      dep_onStatusChange = (\<lambda>t k a b d. True),
      dep_dateNow = (\<lambda>k. 300000)\<rparr>"

definition exampleOrderRow :: OrderRow where
  "exampleOrderRow =
     \<lparr>o_telegramId = 7, o_sideshiftOrderId = ''X1'', o_quoteId = ''Q1'',
      o_fromAsset = ''usdc'', o_fromNetwork = ''ethereum'', o_fromAmount = ''100'',
      o_toAsset = ''btc'', o_toNetwork = ''bitcoin'', o_settleAmount = ''0.001'',
      o_depositAddress = ''0xd'', o_depositMemo = None, o_status = ''processing''\<rparr>"

definition exampleDatabase :: database where
  "exampleDatabase =
     \<lparr>orders = [exampleOrderRow],
      watchedOrders = [\<lparr>w_telegramId = 7, w_sideshiftOrderId = ''X1'', w_lastStatus = ''processing''\<rparr>],
      dcaSchedules = [],
      statusLog = []\<rparr>"

definition emptyDatabase :: database where
  "emptyDatabase = \<lparr>orders = [], watchedOrders = [], dcaSchedules = [], statusLog = []\<rparr>"

text \<open>A daily plan of user 7, due one second before \<open>now = 1000000\<close>.\<close>

definition planP :: DCASchedule where
  "planP =
     \<lparr>dca_id = 1, dca_telegramId = 7,
      dca_fromAsset = ''usdc'', dca_fromNetwork = ''ethereum'',
      dca_toAsset = ''btc'', dca_toNetwork = ''bitcoin'',
      dca_amountPerOrder = ''10'', dca_intervalHours = 24, dca_isActive = 1,
      dca_nextExecutionAt = 999000, dca_ordersExecuted = 0\<rparr>"

definition dcaDatabase :: database where
  "dcaDatabase = \<lparr>orders = [], watchedOrders = [], dcaSchedules = [planP], statusLog = []\<rparr>"

definition dcaSuccessEnv :: dca_env where
  "dcaSuccessEnv =
     \<lparr>getUser = (\<lambda>t. Some \<lparr>walletAddress = Some ''bc1user''\<rparr>),
      quoteOutcome = Resolved (Some \<lparr>quote_id = ''Q1'', quote_settleAmount = ''0.0001'', quote_error = None\<rparr>),
      orderOutcome = Resolved (Some \<lparr>order_id = ''O1'', order_depositAddress = Inl ''0xdep'',
                                      order_status = Some ''waiting''\<rparr>),
      dateNow = 1002000\<rparr>"

text \<open>
  An identity provider that verifies no token (as for a forged or expired one, or with
  no service account configured), and two unsigned three-part tokens. Their payload
  segments are the base64url encodings of the JSON texts \<^verbatim>\<open>{"user_id":"admin-1"}\<close> and
  \<^verbatim>\<open>{"sub":"mallory"}\<close>, which is what decoding and parsing them yields; the header
  segment encodes \<^verbatim>\<open>{"alg":"none"}\<close>. Every other segment used below fails to parse.
  \<open>admin-1\<close> is in the admin table, \<open>mallory\<close> is not.
\<close>

definition rootAdmin :: Admin where
  "rootAdmin = \<lparr>adminName = ''Root'', adminMail = ''root@example.org'', adminRole = ''admin''\<rparr>"






text \<open>
  A provider that verifies Alice's token, where \<open>admin-1\<close> is an admin; a chat message posted by Alice under Bob's id,
  without a role; and a reset of user 42's balance that also carries an amount.
\<close>

definition aliceEnv :: env where
  "aliceEnv =
     \<lparr>verifyIdToken = (\<lambda>t. if t = ''alice-token'' then Some (''alice'', None)
                           else if t = ''admin-token'' then Some (''admin-1'', None) else None),
      parsePayload = (\<lambda>p. None),
      getAdminByFirebaseUid = (\<lambda>u. if u = JStr ''admin-1'' then Some rootAdmin else None),
      selectUser = (\<lambda>t. Some (Some ''fb-42'', None)),
      DATABASE_URL = Some ''postgres://db'',
      parseInt = (\<lambda>x. NaN),
      toNumber = (\<lambda>v. NaN),
      callThrows = (\<lambda>c. False)\<rparr>"

definition bobMessage :: request where
  "bobMessage =
     \<lparr>authorization = Some ''Bearer alice-token'',
      searchParams = [(''userId'', ''bob'')],
      jsonBody = Members [(''userId'', JStr ''bob''), (''content'', JStr ''hi'')]\<rparr>"

definition resetRequest :: request where
  "resetRequest =
     \<lparr>authorization = Some ''Bearer admin-token'',
      searchParams = [],
      jsonBody = Members [(''targetUserId'', JNum (Fin 42)), (''action'', JStr ''reset''),
                          (''amount'', JNum (Fin 500))]\<rparr>"

definition badGiftRequest :: request where
  "badGiftRequest =
     \<lparr>authorization = Some ''Bearer admin-token'',
      searchParams = [],
      jsonBody = Members [(''targetUserId'', JNum (Fin 42)), (''action'', JStr ''gift''),
                          (''amount'', JNum (Fin (- 5)))]\<rparr>"


section \<open>Theorems\<close>

text \<open>
  C8: the polling interval of an order of age A is 15 seconds when A is below 5 minutes,
  60 seconds when A is at least 5 and below 30 minutes, 5 minutes when A is at least
  30 minutes and below 2 hours, and 15 minutes when A is 2 hours or more.
\<close>

theorem getBackoffInterval_table:
  "(A < minutes 5 \<longrightarrow> getBackoffInterval A = seconds 15) \<and>
   (minutes 5 \<le> A \<and> A < minutes 30 \<longrightarrow> getBackoffInterval A = seconds 60) \<and>
   (minutes 30 \<le> A \<and> A < hours 2 \<longrightarrow> getBackoffInterval A = minutes 5) \<and>
   (hours 2 \<le> A \<longrightarrow> getBackoffInterval A = minutes 15)"
  by (simp add: getBackoffInterval_def seconds_def minutes_def hours_def)

theorem getBackoffInterval_table_witness:
  "getBackoffInterval 0 = seconds 15 \<and> getBackoffInterval 299999 = seconds 15 \<and>
   getBackoffInterval (minutes 5) = seconds 60 \<and>
   getBackoffInterval (minutes 30) = minutes 5 \<and>
   getBackoffInterval (hours 2) = minutes 15"
  using getBackoffInterval_table [of 0] getBackoffInterval_table [of 299999]
    getBackoffInterval_table [of "minutes 5"] getBackoffInterval_table [of "minutes 30"]
    getBackoffInterval_table [of "hours 2"]
  by (simp add: seconds_def minutes_def hours_def)

subsection \<open>Auxiliary facts about the monitor\<close>

lemma update_absent: "k \<notin> fst ` set al \<Longrightarrow> AList.update k v al = al @ [(k, v)]"
  by (induction al) auto

lemma filter_key_absent: "k \<notin> fst ` set al \<Longrightarrow> filter (\<lambda>(k', v). k' = k) al = []"
  by (induction al) auto

lemma pollRequests_append: "pollRequests (a @ b) = pollRequests a @ pollRequests b"
  by (simp add: pollRequests_def)

lemma keys_store: "map fst (tracked (store ord m)) = map fst (tracked m)"
  by (auto simp: store_def)

lemma keyed_store: "keyed m \<Longrightarrow> keyed (store ord m)"
  by (auto simp: keyed_def store_def split: if_splits)

lemma keys_untrack: "fst ` set (tracked (untrackOrder k m)) \<subseteq> fst ` set (tracked m)"
  by (auto simp: untrackOrder_def AList.delete_eq)

lemma keyed_untrack: "keyed m \<Longrightarrow> keyed (untrackOrder k m)"
  by (auto simp: keyed_def untrackOrder_def AList.delete_eq)

lemma keyed_count [simp]: "keyed (m\<lparr>activePollCount := c\<rparr>) = keyed m"
  by (simp add: keyed_def)

lemma store_count: "store ord (m\<lparr>activePollCount := c\<rparr>) = (store ord m)\<lparr>activePollCount := c\<rparr>"
  by (simp add: store_def)

lemma untrack_count: "untrackOrder k (m\<lparr>activePollCount := c\<rparr>) = (untrackOrder k m)\<lparr>activePollCount := c\<rparr>"
  by (simp add: untrackOrder_def)

lemma pollOrder_requests: "pollRequests (snd (pollOrder deps ord m)) = [orderId ord]"
  by (simp add: pollOrder_def Let_def pollRequests_def split: sum.splits)

lemma pollOrder_keys:
  "fst ` set (tracked (fst (pollOrder deps ord m))) \<subseteq> fst ` set (tracked m)"
proof -
  have s: "fst ` set (tracked (store x m)) = fst ` set (tracked m)" for x
    using keys_store [of x m] by (metis set_map)
  have u: "fst ` set (tracked (untrackOrder k (store x m))) \<subseteq> fst ` set (tracked m)" for k x
    using keys_untrack [of k "store x m"] s by simp
  show ?thesis
    using s u by (simp add: pollOrder_def Let_def store_count untrack_count split: sum.splits)
qed

lemma pollOrder_keyed: "keyed m \<Longrightarrow> keyed (fst (pollOrder deps ord m))"
  by (simp add: pollOrder_def Let_def store_count untrack_count keyed_store keyed_untrack
      split: sum.splits)

lemma pollAll_props:
  "pollRequests (snd (pollAll deps batch m)) = map orderId batch \<and>
   fst ` set (tracked (fst (pollAll deps batch m))) \<subseteq> fst ` set (tracked m) \<and>
   (keyed m \<longrightarrow> keyed (fst (pollAll deps batch m)))"
proof (induction batch arbitrary: m)
  case Nil
  show ?case by (simp add: pollRequests_def)
next
  case (Cons ord rest)
  obtain m1 c1 where p: "pollOrder deps ord m = (m1, c1)" by (cases "pollOrder deps ord m")
  obtain m2 c2 where q: "pollAll deps rest m1 = (m2, c2)" by (cases "pollAll deps rest m1")
  have r1: "pollRequests c1 = [orderId ord]" using pollOrder_requests [of deps ord m] p by simp
  have k1: "fst ` set (tracked m1) \<subseteq> fst ` set (tracked m)" using pollOrder_keys [of deps ord m] p by simp
  have w1: "keyed m \<Longrightarrow> keyed m1" using pollOrder_keyed [of m deps ord] p by simp
  from Cons.IH [of m1] q have
    "pollRequests c2 = map orderId rest"
    "fst ` set (tracked m2) \<subseteq> fst ` set (tracked m1)"
    "keyed m1 \<longrightarrow> keyed m2" by simp_all
  with r1 k1 w1 show ?case by (auto simp: p q pollRequests_append)
qed

lemma slice0_subset: "set (slice0 xs e) \<subseteq> set xs"
  by (auto simp: slice0_def dest: in_set_takeD)

lemma tick_props:
  assumes "keyed m"
  shows "set (pollRequests (snd (tick deps now m))) \<subseteq> fst ` set (tracked m) \<and>
         fst ` set (tracked (fst (tick deps now m))) \<subseteq> fst ` set (tracked m) \<and>
         keyed (fst (tick deps now m))"
proof -
  define toPoll where "toPoll = filter (isDue now) (map snd (tracked m))"
  define batch where "batch = slice0 toPoll (MAX_CONCURRENT - activePollCount m)"
  have b1: "set batch \<subseteq> set toPoll"
    unfolding batch_def by (rule slice0_subset)
  have b2: "set toPoll \<subseteq> snd ` set (tracked m)"
    unfolding toPoll_def by auto
  have sub: "orderId ` set batch \<subseteq> fst ` set (tracked m)"
  proof
    fix k assume "k \<in> orderId ` set batch"
    then obtain v where v: "v \<in> set batch" "k = orderId v" by blast
    with b1 b2 obtain k' where kv: "(k', v) \<in> set (tracked m)" by fastforce
    with assms have "orderId v = k'" unfolding keyed_def by blast
    with v kv show "k \<in> fst ` set (tracked m)" by force
  qed
  have t: "tick deps now m = (if toPoll = [] \<or> batch = [] then (m, []) else pollAll deps batch m)"
    unfolding tick_def Let_def toPoll_def batch_def by simp
  show ?thesis
  proof (cases "toPoll = [] \<or> batch = []")
    case True
    then have "tick deps now m = (m, [])" using t by simp
    then show ?thesis using assms by (simp add: pollRequests_def)
  next
    case False
    then have e: "tick deps now m = pollAll deps batch m" using t by simp
    from pollAll_props [of deps batch m] assms sub show ?thesis
      unfolding e by simp
  qed
qed

lemma ticks_props:
  "keyed m \<Longrightarrow> set (pollRequests (snd (ticks ts m))) \<subseteq> fst ` set (tracked m)"
proof (induction ts arbitrary: m)
  case Nil
  show ?case by (simp add: pollRequests_def)
next
  case (Cons t ts)
  obtain deps now where t: "t = (deps, now)" by (cases t)
  obtain m1 c1 where p: "tick deps now m = (m1, c1)" by (cases "tick deps now m")
  obtain m2 c2 where q: "ticks ts m1 = (m2, c2)" by (cases "ticks ts m1")
  from tick_props [OF Cons.prems, of deps now] p
  have a: "set (pollRequests c1) \<subseteq> fst ` set (tracked m)"
    and b: "fst ` set (tracked m1) \<subseteq> fst ` set (tracked m)" and c: "keyed m1" by simp_all
  from Cons.IH [OF c] q have "set (pollRequests c2) \<subseteq> fst ` set (tracked m1)" by simp
  with a b show ?case by (auto simp: t p q pollRequests_append)
qed

lemma has_iff: "has al k \<longleftrightarrow> k \<in> fst ` set al"
  by (simp add: has_def map_of_eq_None_iff)

lemma delete_absent: "k \<notin> fst ` set (AList.delete k al)"
  by (induction al) auto

lemma count_store: "activePollCount (store ord m) = activePollCount m"
  by (simp add: store_def)

lemma count_untrack: "activePollCount (untrackOrder k m) = activePollCount m"
  by (simp add: untrackOrder_def)

lemma restore_count: "activePollCount m' = c \<Longrightarrow> m'\<lparr>activePollCount := c\<rparr> = m'"
  by simp

lemma pollOrder_terminal:
  assumes "dep_getOrderStatus deps (orderId ord) = Inr st"
    and "status st \<in> TERMINAL_STATUSES"
    and "status st \<noteq> lastStatus ord"
    and "dep_onStatusChange deps (telegramId ord) (orderId ord) (lastStatus ord) (status st) st"
  shows "pollOrder deps ord m =
     (untrackOrder (orderId ord)
        (store (ord\<lparr>lastChecked := dep_dateNow deps (orderId ord), lastStatus := status st\<rparr>) m),
      [GetOrderStatus (orderId ord),
       UpdateOrderStatus (orderId ord) (status st),
       UpdateWatchedOrderStatus (orderId ord) (status st),
       OnStatusChange (telegramId ord) (orderId ord) (lastStatus ord) (status st) st])"
  using assms
  by (simp add: pollOrder_def Let_def store_count untrack_count restore_count count_store count_untrack)


text \<open>
  A poll whose status request fails, whatever the failure, leaves the monitor as it was:
  the order stays tracked with its \<^verbatim>\<open>lastChecked\<close> and \<^verbatim>\<open>lastStatus\<close> unchanged.
\<close>

lemma pollOrder_failed:
  "dep_getOrderStatus deps (orderId ord) = Inl e \<Longrightarrow>
   pollOrder deps ord m = (m, [GetOrderStatus (orderId ord)])"
  by (simp add: pollOrder_def Let_def)

subsection \<open>Order Monitor: tracking\<close>

lemma watchedRows_insert:
  "watchedRows oid (insertWatchedOrder \<lparr>w_telegramId = u, w_sideshiftOrderId = oid, w_lastStatus = s\<rparr> db) =
     (if watchedRows oid db = [] then [\<lparr>w_telegramId = u, w_sideshiftOrderId = oid, w_lastStatus = s\<rparr>]
      else watchedRows oid db)"
  by (auto simp: watchedRows_def insertWatchedOrder_def filter_empty_conv)

text \<open>
  C7: for every order id, user and creation time, \<open>track; track; untrack; track\<close> from a
  state whose tracked map does not hold the order, and whose WatchedOrder table holds
  no row for it (or, the table being unique on the order id, one row), leaves exactly
  one in-memory entry and exactly one WatchedOrder row for it.
\<close>

theorem track_track_untrack_track:
  assumes "\<not> has (tracked m) oid"
    and "length (watchedRows oid db) \<le> 1"
  shows "(let s1 = trackOrder oid u (Some t) now1 m;
              s2 = trackOrder oid u (Some t) now2 (fst s1);
              m3 = untrackOrder oid (fst s2);
              s4 = trackOrder oid u (Some t) now3 m3;
              db' = persistAll (snd s1 @ snd s2 @ snd s4) db
          in length (filter (\<lambda>(k, v). k = oid) (tracked (fst s4))) = 1 \<and>
             length (watchedRows oid db') = 1)"
proof -
  have mem: "length (filter (\<lambda>(k, v). k = oid) (tracked (fst (trackOrder oid u (Some t) now3
      (untrackOrder oid (fst (trackOrder oid u (Some t) now2 (fst (trackOrder oid u (Some t) now1 m))))))))) = 1"
    using assms(1)
    by (simp add: trackOrder_def untrackOrder_def has_iff update_absent delete_absent filter_key_absent)
  have cs: "snd (trackOrder oid u (Some t) now1 m) @
            snd (trackOrder oid u (Some t) now2 (fst (trackOrder oid u (Some t) now1 m))) @
            snd (trackOrder oid u (Some t) now3
              (untrackOrder oid (fst (trackOrder oid u (Some t) now2 (fst (trackOrder oid u (Some t) now1 m)))))) =
            [AddWatchedOrder u oid ''pending'', AddWatchedOrder u oid ''pending'']"
    using assms(1)
    by (simp add: trackOrder_def untrackOrder_def has_iff update_absent delete_absent)
  have rows: "length (watchedRows oid
      (persistAll [AddWatchedOrder u oid ''pending'', AddWatchedOrder u oid ''pending''] db)) = 1"
    using assms(2)
    by (cases "watchedRows oid db") (simp_all add: persistAll_def watchedRows_insert)
  show ?thesis
    unfolding Let_def using mem rows by (simp only: cs)
qed


theorem track_track_untrack_track_witness:
  "(let s1 = trackOrder ''X1'' 7 (Some 0) 10 \<lparr>tracked = [], activePollCount = 0\<rparr>;
        s2 = trackOrder ''X1'' 7 (Some 0) 20 (fst s1);
        m3 = untrackOrder ''X1'' (fst s2);
        s4 = trackOrder ''X1'' 7 (Some 0) 30 m3;
        db' = persistAll (snd s1 @ snd s2 @ snd s4) emptyDatabase
    in length (filter (\<lambda>(k, v). k = ''X1'') (tracked (fst s4))) = 1 \<and>
       length (watchedRows ''X1'' db') = 1)"
  using track_track_untrack_track [of "\<lparr>tracked = [], activePollCount = 0\<rparr>" "''X1''" emptyDatabase 7 0 10 20 30]
  by (simp add: has_def emptyDatabase_def watchedRows_def)

subsection \<open>Order Monitor: terminal transitions\<close>

text \<open>
  C5 as stated fails: the poll that observes \<open>settled\<close> for a tracked order leaves the
  status log empty, since the monitor has no operation that writes it.
\<close>

theorem poll_terminal_statusLog_counterexample:
  "statusLog (persistAll (snd (pollOrder settledDeps processingOrder
      \<lparr>tracked = [(''X1'', processingOrder)], activePollCount = 0\<rparr>)) exampleDatabase) = [] \<and>
   snd (pollOrder settledDeps processingOrder
      \<lparr>tracked = [(''X1'', processingOrder)], activePollCount = 0\<rparr>) =
     [GetOrderStatus ''X1'', UpdateOrderStatus ''X1'' ''settled'',
      UpdateWatchedOrderStatus ''X1'' ''settled'',
      OnStatusChange 7 ''X1'' ''processing'' ''settled'' settledStatus]"
  by (simp add: pollOrder_def settledDeps_def processingOrder_def getOrderStatus_def surface_def
      settledStatus_def Let_def persistAll_def exampleDatabase_def TERMINAL_STATUSES_def)

text \<open>
  C5, amended: for every tracked order, a poll that observes a terminal status different
  from the last recorded one, and whose listener returns normally, makes exactly the calls
  \<^verbatim>\<open>getOrderStatus\<close>, \<^verbatim>\<open>updateOrderStatus\<close>, \<^verbatim>\<open>updateWatchedOrderStatus\<close> (both with the
  terminal status) and one call of the single listener \<^verbatim>\<open>onStatusChange\<close>; the Order and
  WatchedOrder rows of that order then carry the terminal status, the status log is
  unchanged, the order is no longer in the tracked map, and no later run of ticks
  requests its status.
\<close>

theorem poll_terminal_transition:
  assumes "keyed m"
    and "(orderId ord, ord) \<in> set (tracked m)"
    and "dep_getOrderStatus deps (orderId ord) = Inr st"
    and "status st \<in> TERMINAL_STATUSES"
    and "status st \<noteq> lastStatus ord"
    and "dep_onStatusChange deps (telegramId ord) (orderId ord) (lastStatus ord) (status st) st"
  shows "(let (m', cs) = pollOrder deps ord m; db' = persistAll cs db in
          cs = [GetOrderStatus (orderId ord),
                UpdateOrderStatus (orderId ord) (status st),
                UpdateWatchedOrderStatus (orderId ord) (status st),
                OnStatusChange (telegramId ord) (orderId ord) (lastStatus ord) (status st) st] \<and>
          listenerCalls cs =
            [OnStatusChange (telegramId ord) (orderId ord) (lastStatus ord) (status st) st] \<and>
          (\<forall>r \<in> set (orders db'). o_sideshiftOrderId r = orderId ord \<longrightarrow> o_status r = status st) \<and>
          (\<forall>r \<in> set (watchedOrders db').
              w_sideshiftOrderId r = orderId ord \<longrightarrow> w_lastStatus r = status st) \<and>
          statusLog db' = statusLog db \<and>
          \<not> has (tracked m') (orderId ord) \<and>
          (\<forall>ts. orderId ord \<notin> set (pollRequests (snd (ticks ts m')))))"
proof -
  define m' where "m' = untrackOrder (orderId ord)
        (store (ord\<lparr>lastChecked := dep_dateNow deps (orderId ord), lastStatus := status st\<rparr>) m)"
  define cs where "cs = [GetOrderStatus (orderId ord),
       UpdateOrderStatus (orderId ord) (status st),
       UpdateWatchedOrderStatus (orderId ord) (status st),
       OnStatusChange (telegramId ord) (orderId ord) (lastStatus ord) (status st) st]"
  have p: "pollOrder deps ord m = (m', cs)"
    unfolding m'_def cs_def using assms(3-6) by (rule pollOrder_terminal)
  have gone: "orderId ord \<notin> fst ` set (tracked m')"
    unfolding m'_def untrackOrder_def by (simp add: delete_absent)
  have k: "keyed m'"
    unfolding m'_def using assms(1) by (simp add: keyed_store keyed_untrack)
  have never: "orderId ord \<notin> set (pollRequests (snd (ticks ts m')))" for ts
    using ticks_props [OF k, of ts] gone by blast
  have l: "listenerCalls cs = [OnStatusChange (telegramId ord) (orderId ord) (lastStatus ord) (status st) st]"
    by (simp add: cs_def listenerCalls_def)
  have o: "\<forall>r \<in> set (orders (persistAll cs db)). o_sideshiftOrderId r = orderId ord \<longrightarrow> o_status r = status st"
    by (auto simp: cs_def persistAll_def)
  have w: "\<forall>r \<in> set (watchedOrders (persistAll cs db)).
              w_sideshiftOrderId r = orderId ord \<longrightarrow> w_lastStatus r = status st"
    by (auto simp: cs_def persistAll_def)
  have sl: "statusLog (persistAll cs db) = statusLog db"
    by (simp add: cs_def persistAll_def)
  show ?thesis
    using l o w sl gone never by (simp add: p Let_def has_iff) (simp add: cs_def)
qed


theorem poll_terminal_transition_witness:
  "\<not> has (tracked (fst (pollOrder settledDeps processingOrder
        \<lparr>tracked = [(''X1'', processingOrder)], activePollCount = 0\<rparr>))) ''X1'' \<and>
   listenerCalls (snd (pollOrder settledDeps processingOrder
        \<lparr>tracked = [(''X1'', processingOrder)], activePollCount = 0\<rparr>)) =
     [OnStatusChange 7 ''X1'' ''processing'' ''settled'' settledStatus]"
proof -
  let ?m = "\<lparr>tracked = [(''X1'', processingOrder)], activePollCount = 0\<rparr>"
  have h1: "keyed ?m"
    by (simp add: keyed_def processingOrder_def)
  have h2: "(orderId processingOrder, processingOrder) \<in> set (tracked ?m)"
    by (simp add: processingOrder_def)
  have h3: "dep_getOrderStatus settledDeps (orderId processingOrder) = Inr settledStatus"
    by (simp add: settledDeps_def getOrderStatus_def surface_def)
  have h4: "status settledStatus \<in> TERMINAL_STATUSES"
    by (simp add: settledStatus_def TERMINAL_STATUSES_def)
  have h5: "status settledStatus \<noteq> lastStatus processingOrder"
    by (simp add: settledStatus_def processingOrder_def)
  have h6: "dep_onStatusChange settledDeps (telegramId processingOrder) (orderId processingOrder)
              (lastStatus processingOrder) (status settledStatus) settledStatus"
    by (simp add: settledDeps_def)
  have "\<not> has (tracked (fst (pollOrder settledDeps processingOrder ?m))) (orderId processingOrder) \<and>
        listenerCalls (snd (pollOrder settledDeps processingOrder ?m)) =
          [OnStatusChange (telegramId processingOrder) (orderId processingOrder)
             (lastStatus processingOrder) (status settledStatus) settledStatus]"
    using poll_terminal_transition [OF h1 h2 h3 h4 h5 h6, of exampleDatabase]
    unfolding case_prod_unfold Let_def by blast
  moreover have "orderId processingOrder = ''X1''" "telegramId processingOrder = 7"
    "lastStatus processingOrder = ''processing''" "status settledStatus = ''settled''"
    by (simp_all add: processingOrder_def settledStatus_def)
  ultimately show ?thesis by simp
qed

subsection \<open>Order Monitor: rate limiting\<close>

text \<open>
  C3 evaluated on the code. One tracked order; the aggregator answers 429 with
  \<^verbatim>\<open>Retry-After: 30\<close> to the poll of the tick at 20 s. The monitor's state after that
  tick is the state before it (there is nothing like \<open>pausedUntil\<close> to set), and the next
  tick, at 30 s and thus inside the 30 s pause window, requests the order's status again.
\<close>

theorem tick_polls_during_rate_limit_pause:
  "tick rateLimitedDeps 20000 \<lparr>tracked = [(''X1'', pendingOrder)], activePollCount = 0\<rparr> =
     (\<lparr>tracked = [(''X1'', pendingOrder)], activePollCount = 0\<rparr>, [GetOrderStatus ''X1'']) \<and>
   pollRequests (snd (tick rateLimitedDeps 30000
     (fst (tick rateLimitedDeps 20000 \<lparr>tracked = [(''X1'', pendingOrder)], activePollCount = 0\<rparr>)))) =
     [''X1'']"
  by (simp add: tick_def isDue_def pendingOrder_def getBackoffInterval_def slice0_def
      MAX_CONCURRENT_def pollOrder_def rateLimitedDeps_def getOrderStatus_def surface_def
      or_else_def Let_def pollRequests_def)

subsection \<open>Aggregator client: surfaced errors\<close>

text \<open>
  C6 as stated fails: a 429 with \<^verbatim>\<open>Retry-After: 30\<close> and a 400 whose bodies carry the same
  message surface as the same error value, so the caller cannot tell them apart.
\<close>

theorem client_error_structured_counterexample:
  "getOrderStatus (ErrorResponse 429 (Some 30) (Some ''RATE_LIMITED'') (Some ''Request rejected'')) =
   getOrderStatus (ErrorResponse 400 None (Some ''INVALID_ORDER'') (Some ''Request rejected''))"
  by (simp add: getOrderStatus_def surface_def)

text \<open>
  C6, amended: for every client call (\<^verbatim>\<open>getOrderStatus\<close>, \<^verbatim>\<open>createOrder\<close>,
  \<^verbatim>\<open>createQuote\<close>, \<^verbatim>\<open>createCheckout\<close>) that receives an error response (any 4xx or
  5xx), the error surfaced to the caller is an \<^verbatim>\<open>Error\<close> holding only a message: the
  body's \<^verbatim>\<open>error.message\<close> when it is present and non-empty, the call's fixed fallback
  text otherwise. HTTP status, error code and \<^verbatim>\<open>Retry-After\<close> are not part of it.
\<close>

theorem client_error_is_message_only:
  "getOrderStatus (ErrorResponse st ra c msg) = Inl (Error (or_else msg ''Failed to get order status'')) \<and>
   createOrder (ErrorResponse st ra c msg) = Inl (Error (or_else msg ''Failed to create order'')) \<and>
   createQuote a b (ErrorResponse st ra c msg) =
     Inl (Error (or_else msg (''Failed to create quote for '' @ a @ '' to '' @ b))) \<and>
   createCheckout base (ErrorResponse st ra c msg) = Inl (Error (or_else msg ''Failed to create checkout''))"
  by (simp add: getOrderStatus_def createOrder_def createQuote_def createCheckout_def surface_def)

subsection \<open>DCA Scheduler: completing an execution\<close>

lemma executeSchedule_success:
  assumes "executionSucceeds env schedule"
  shows "\<exists>quote ord. executeSchedule env schedule db = completeExecution schedule quote ord db"
  using assms
  by (auto simp: executionSucceeds_def executeSchedule_def split: sum.splits option.splits)

lemma completeExecution_next:
  "map dca_nextExecutionAt (dcaSchedules (completeExecution schedule quote ord db)) =
   map dca_nextExecutionAt (dcaSchedules db)"
  by (simp add: completeExecution_def Let_def insertWatchedOrder_def comp_def)

text \<open>No successful execution changes any schedule's \<^verbatim>\<open>nextExecutionAt\<close>.\<close>

lemma executeSchedule_success_keeps_next:
  assumes "executionSucceeds env schedule"
  shows "map dca_nextExecutionAt (dcaSchedules (executeSchedule env schedule db)) =
         map dca_nextExecutionAt (dcaSchedules db)"
  using executeSchedule_success [OF assms, of db] completeExecution_next by auto

text \<open>
  C2 evaluated on the code. Plan P (every 24 hours) is due; one scheduler claims it at
  \<open>now = 1000000\<close>, which moves its \<^verbatim>\<open>nextExecutionAt\<close> to the lock time, ten minutes
  later; quote and order creation succeed. The completing transaction inserts the Order
  row and the WatchedOrder row and increments \<^verbatim>\<open>ordersExecuted\<close>, but it has no statement
  for \<^verbatim>\<open>nextExecutionAt\<close>: the plan keeps the lock time and is not moved to now + 24 hours.
\<close>

theorem dca_success_keeps_lock_sentinel:
  "fst (claimDue 1000000 1000000 dcaDatabase) = [planP] \<and>
   executionSucceeds dcaSuccessEnv planP \<and>
   map dca_nextExecutionAt (dcaSchedules (snd (claimDue 1000000 1000000 dcaDatabase))) = [1000000 + minutes 10] \<and>
   map dca_nextExecutionAt
     (dcaSchedules (executeSchedule dcaSuccessEnv planP (snd (claimDue 1000000 1000000 dcaDatabase)))) =
     [1000000 + minutes 10] \<and>
   map dca_ordersExecuted
     (dcaSchedules (executeSchedule dcaSuccessEnv planP (snd (claimDue 1000000 1000000 dcaDatabase)))) = [1] \<and>
   map o_sideshiftOrderId
     (orders (executeSchedule dcaSuccessEnv planP (snd (claimDue 1000000 1000000 dcaDatabase)))) = [''O1''] \<and>
   map w_sideshiftOrderId
     (watchedOrders (executeSchedule dcaSuccessEnv planP (snd (claimDue 1000000 1000000 dcaDatabase)))) = [''O1''] \<and>
   1000000 + minutes 10 \<noteq> dateNow dcaSuccessEnv + hours (dca_intervalHours planP)"
  by (simp add: claimDue_def dcaDatabase_def planP_def isDueSchedule_def executeSchedule_def
      dcaSuccessEnv_def hasWallet_def createQuote_def createOrder_def surface_def completeExecution_def
      insertWatchedOrder_def Let_def minutes_def hours_def MAX_PROCESSING_TIME_MINUTES_def
      executionSucceeds_def)

subsection \<open>HTTP routes: token verification\<close>


















subsection \<open>HTTP routes: user-scoped access\<close>


text \<open>
  C9 as stated fails on the status: Alice, authenticated, posts a chat message under
  Bob's id without a role; the required-field check precedes the identity comparison and
  the answer is 400, not 403.
\<close>

theorem idor_status_counterexample:
  "firebaseAuth aliceEnv bobMessage = Inr ''alice'' \<and>
   member [(''userId'', JStr ''bob''), (''content'', JStr ''hi'')] ''userId'' = JStr ''bob'' \<and>
   chatHistory_POST aliceEnv bobMessage = reject 400 ''userId, role, and content are required''"
  by (simp add: chatHistory_POST_def firebaseAuth_def bobMessage_def aliceEnv_def startsWith_def
      bearerToken_def splitString_def member_def Let_def)

text \<open>
  C9, amended: for every user-scoped endpoint (swap history; chat history GET, POST,
  DELETE; user settings GET, POST, PATCH), a request of an authenticated caller whose
  \<^verbatim>\<open>userId\<close> (query parameter or body member) differs from the caller's identity is
  rejected without any data call. The status is 403 when the request passes the checks
  that precede the identity comparison; otherwise it is the status of the failing earlier
  check: 400 for an empty \<^verbatim>\<open>userId\<close> (on chat POST also for a missing \<^verbatim>\<open>role\<close> or
  \<^verbatim>\<open>content\<close>), 500 on the settings routes when \<^verbatim>\<open>DATABASE_URL\<close> is not configured.
\<close>

theorem idor_rejection:
  assumes "firebaseAuth e req = Inr caller"
  shows
    "(map_of (searchParams req) ''userId'' = Some u \<and> u \<noteq> caller \<longrightarrow>
        calls (swapHistory_GET e req) = [] \<and>
        statusCode (swapHistory_GET e req) = (if u = [] then 400 else 403) \<and>
        calls (chatHistory_GET e req) = [] \<and>
        statusCode (chatHistory_GET e req) = (if u = [] then 400 else 403) \<and>
        calls (chatHistory_DELETE e req) = [] \<and>
        statusCode (chatHistory_DELETE e req) = (if u = [] then 400 else 403) \<and>
        calls (userSettings_GET e req) = [] \<and>
        statusCode (userSettings_GET e req) =
          (if nonEmpty (DATABASE_URL e) = None then 500 else if u = [] then 400 else 403)) \<and>
     (jsonBody req = Members b \<and> member b ''userId'' \<noteq> JStr caller \<longrightarrow>
        calls (chatHistory_POST e req) = [] \<and>
        statusCode (chatHistory_POST e req) =
          (if truthy (member b ''userId'') \<and> truthy (member b ''role'') \<and> truthy (member b ''content'')
           then 403 else 400) \<and>
        calls (userSettings_POST e req) = [] \<and>
        statusCode (userSettings_POST e req) =
          (if nonEmpty (DATABASE_URL e) = None then 500
           else if truthy (member b ''userId'') then 403 else 400) \<and>
        userSettings_PATCH e req = userSettings_POST e req)"
proof (intro conjI impI)
  assume q: "map_of (searchParams req) ''userId'' = Some u \<and> u \<noteq> caller"
  then have n: "nonEmpty (map_of (searchParams req) ''userId'') = (if u = [] then None else Some u)"
    by (simp add: nonEmpty_def)
  show "calls (swapHistory_GET e req) = []"
    using q by (simp add: swapHistory_GET_def assms nonEmpty_def reject_def split: option.splits)
  show "statusCode (swapHistory_GET e req) = (if u = [] then 400 else 403)"
    using q by (simp add: swapHistory_GET_def assms nonEmpty_def reject_def split: option.splits)
  show "calls (chatHistory_GET e req) = []"
    using q by (simp add: chatHistory_GET_def assms nonEmpty_def reject_def split: option.splits)
  show "statusCode (chatHistory_GET e req) = (if u = [] then 400 else 403)"
    using q by (simp add: chatHistory_GET_def assms nonEmpty_def reject_def split: option.splits)
  show "calls (chatHistory_DELETE e req) = []"
    using q by (simp add: chatHistory_DELETE_def assms nonEmpty_def reject_def split: option.splits)
  show "statusCode (chatHistory_DELETE e req) = (if u = [] then 400 else 403)"
    using q by (simp add: chatHistory_DELETE_def assms nonEmpty_def reject_def split: option.splits)
  show "calls (userSettings_GET e req) = []"
    using q by (simp add: userSettings_GET_def assms nonEmpty_def reject_def split: option.splits)
  show "statusCode (userSettings_GET e req) =
          (if nonEmpty (DATABASE_URL e) = None then 500 else if u = [] then 400 else 403)"
    using q by (simp add: userSettings_GET_def assms nonEmpty_def reject_def split: option.splits)
next
  assume p: "jsonBody req = Members b \<and> member b ''userId'' \<noteq> JStr caller"
  show "calls (chatHistory_POST e req) = []"
    using p by (simp add: chatHistory_POST_def assms Let_def reject_def)
  show "statusCode (chatHistory_POST e req) =
          (if truthy (member b ''userId'') \<and> truthy (member b ''role'') \<and> truthy (member b ''content'')
           then 403 else 400)"
    using p by (simp add: chatHistory_POST_def assms Let_def reject_def)
  show "calls (userSettings_POST e req) = []"
    using p by (simp add: userSettings_POST_def assms Let_def reject_def)
  show "statusCode (userSettings_POST e req) =
          (if nonEmpty (DATABASE_URL e) = None then 500
           else if truthy (member b ''userId'') then 403 else 400)"
    using p by (simp add: userSettings_POST_def assms Let_def reject_def)
  show "userSettings_PATCH e req = userSettings_POST e req"
    by (simp add: userSettings_PATCH_def)
qed



theorem idor_rejection_witness:
  "statusCode (swapHistory_GET aliceEnv bobMessage) = 403 \<and>
   calls (swapHistory_GET aliceEnv bobMessage) = [] \<and>
   statusCode (userSettings_POST aliceEnv bobMessage) = 403 \<and>
   calls (userSettings_POST aliceEnv bobMessage) = []"
proof -
  let ?b = "[(''userId'', JStr ''bob''), (''content'', JStr ''hi'')]"
  have a: "firebaseAuth aliceEnv bobMessage = Inr ''alice''"
    by (simp add: firebaseAuth_def bobMessage_def aliceEnv_def startsWith_def bearerToken_def
        splitString_def)
  have q: "map_of (searchParams bobMessage) ''userId'' = Some ''bob'' \<and> ''bob'' \<noteq> ''alice''"
    by (simp add: bobMessage_def)
  have p: "jsonBody bobMessage = Members ?b \<and> member ?b ''userId'' \<noteq> JStr ''alice''"
    by (simp add: bobMessage_def member_def)
  have d: "nonEmpty (DATABASE_URL aliceEnv) \<noteq> None" "truthy (member ?b ''userId'')" "''bob'' \<noteq> []"
    by (simp_all add: aliceEnv_def nonEmpty_def member_def)
  from idor_rejection [OF a, of "''bob''" ?b] q p d show ?thesis by simp
qed

subsection \<open>HTTP routes: admin coin adjustment\<close>

lemma member_amount_other:
  "k \<noteq> ''amount'' \<Longrightarrow> member ((''amount'', a) # b) k = member b k"
  by (simp add: member_def)

lemma coinsAdminAuth_body: "coinsAdminAuth e (req\<lparr>jsonBody := x\<rparr>) = coinsAdminAuth e req"
  by (simp add: coinsAdminAuth_def)

lemma coinsAdminAuth_rejection:
  assumes "coinsAdminAuth e req = Inl r"
  shows "AdjustTestnetCoins args \<notin> set (calls r) \<and>
         errorText r \<noteq> Some ''amount must be a positive number for gift/deduct''"
  using assms
  by (auto simp: coinsAdminAuth_def reject_def split: option.splits if_splits)

lemma adjust_reset_ignores_amount:
  assumes "member b ''action'' = JStr ''reset''"
  shows "adjust_POST e (req\<lparr>jsonBody := Members ((''amount'', a) # b)\<rparr>) =
         adjust_POST e (req\<lparr>jsonBody := Members ((''amount'', a') # b)\<rparr>)"
proof (cases "coinsAdminAuth e req")
  case (Inl r)
  then show ?thesis by (simp add: adjust_POST_def coinsAdminAuth_body)
next
  case (Inr p)
  obtain uid admin where p: "p = (uid, admin)" by (cases p)
  from assms Inr p show ?thesis
    by (simp add: adjust_POST_def coinsAdminAuth_body member_amount_other Let_def)
qed

lemma adjust_reset_amount_zero:
  assumes "AdjustTestnetCoins args \<in> set (calls (adjust_POST e req))"
    and "adjustAction args = JStr ''reset''"
  shows "adjustAmount args = JNum (Fin 0)"
proof (cases "coinsAdminAuth e req")
  case (Inl r)
  with assms(1) coinsAdminAuth_rejection [OF Inl, of args] show ?thesis
    by (simp add: adjust_POST_def)
next
  case (Inr p)
  obtain uid admin where p: "p = (uid, admin)" by (cases p)
  show ?thesis
  proof (cases "jsonBody req")
    case (Members b)
    with assms Inr p show ?thesis
      by (auto simp: adjust_POST_def Let_def perform_def split: if_splits option.splits prod.splits)
  qed (use assms Inr p in \<open>simp_all add: adjust_POST_def\<close>)
qed

lemma adjust_amount_error_only:
  assumes "jsonBody req = Members b"
    and "errorText (adjust_POST e req) = Some ''amount must be a positive number for gift/deduct''"
  shows "member b ''action'' \<in> {JStr ''gift'', JStr ''deduct''} \<and> invalidAmount (member b ''amount'')"
proof (cases "coinsAdminAuth e req")
  case (Inl r)
  with assms(2) coinsAdminAuth_rejection [OF Inl] show ?thesis
    by (simp add: adjust_POST_def)
next
  case (Inr p)
  obtain uid admin where p: "p = (uid, admin)" by (cases p)
  from assms Inr p show ?thesis
    by (simp add: adjust_POST_def Let_def perform_def split: if_splits option.splits prod.splits)
qed

lemma adjust_amount_error:
  assumes "jsonBody req = Members b" and "coinsAdminAuth e req = Inr (uid, admin)"
    and "truthy (member b ''targetUserId'')"
    and "member b ''action'' \<in> {JStr ''gift'', JStr ''deduct''}"
    and "invalidAmount (member b ''amount'')"
  shows "adjust_POST e req =
           \<lparr>statusCode = 400, errorText = Some ''amount must be a positive number for gift/deduct'',
            calls = [GetAdminByFirebaseUid uid]\<rparr>"
  using assms by (auto simp: adjust_POST_def Let_def)


text \<open>
  C10: in \<^verbatim>\<open>POST /api/admin/coins/adjust\<close> the amount check (400 when the amount is not a
  number or is at most 0) applies only when the action is gift or deduct, and does apply
  then; when the action is reset, the amount member of the body has no influence on what
  the handler does, and the adjustment is called with amount 0.
\<close>

theorem adjust_amount_validation:
  "(member b ''action'' = JStr ''reset'' \<longrightarrow>
      adjust_POST e (req\<lparr>jsonBody := Members ((''amount'', a) # b)\<rparr>) =
      adjust_POST e (req\<lparr>jsonBody := Members ((''amount'', a') # b)\<rparr>)) \<and>
   (\<forall>args. AdjustTestnetCoins args \<in> set (calls (adjust_POST e req)) \<and>
            adjustAction args = JStr ''reset'' \<longrightarrow> adjustAmount args = JNum (Fin 0)) \<and>
   (jsonBody req = Members b \<longrightarrow>
      (errorText (adjust_POST e req) = Some ''amount must be a positive number for gift/deduct'' \<longrightarrow>
         member b ''action'' \<in> {JStr ''gift'', JStr ''deduct''} \<and> invalidAmount (member b ''amount'')) \<and>
      (coinsAdminAuth e req = Inr (uid, admin) \<and> truthy (member b ''targetUserId'') \<and>
       member b ''action'' \<in> {JStr ''gift'', JStr ''deduct''} \<and> invalidAmount (member b ''amount'') \<longrightarrow>
         statusCode (adjust_POST e req) = 400 \<and>
         errorText (adjust_POST e req) = Some ''amount must be a positive number for gift/deduct'' \<and>
         calls (adjust_POST e req) = [GetAdminByFirebaseUid uid]))"
proof (intro conjI impI allI)
  assume "member b ''action'' = JStr ''reset''"
  then show "adjust_POST e (req\<lparr>jsonBody := Members ((''amount'', a) # b)\<rparr>) =
      adjust_POST e (req\<lparr>jsonBody := Members ((''amount'', a') # b)\<rparr>)"
    by (rule adjust_reset_ignores_amount)
next
  fix args
  assume "AdjustTestnetCoins args \<in> set (calls (adjust_POST e req)) \<and> adjustAction args = JStr ''reset''"
  then show "adjustAmount args = JNum (Fin 0)"
    using adjust_reset_amount_zero by blast
next
  assume b: "jsonBody req = Members b"
    and t: "errorText (adjust_POST e req) = Some ''amount must be a positive number for gift/deduct''"
  from adjust_amount_error_only [OF b t]
  show "member b ''action'' \<in> {JStr ''gift'', JStr ''deduct''}"
    and "invalidAmount (member b ''amount'')" by simp_all
next
  assume b: "jsonBody req = Members b"
    and h: "coinsAdminAuth e req = Inr (uid, admin) \<and> truthy (member b ''targetUserId'') \<and>
       member b ''action'' \<in> {JStr ''gift'', JStr ''deduct''} \<and> invalidAmount (member b ''amount'')"
  then have r: "adjust_POST e req =
           \<lparr>statusCode = 400, errorText = Some ''amount must be a positive number for gift/deduct'',
            calls = [GetAdminByFirebaseUid uid]\<rparr>"
    using adjust_amount_error [of req b e uid admin] by blast
  show "statusCode (adjust_POST e req) = 400" by (simp add: r)
  show "errorText (adjust_POST e req) = Some ''amount must be a positive number for gift/deduct''"
    by (simp add: r)
  show "calls (adjust_POST e req) = [GetAdminByFirebaseUid uid]" by (simp add: r)
qed


theorem adjust_amount_validation_witness:
  "adjust_POST aliceEnv
     (resetRequest\<lparr>jsonBody := Members ((''amount'', JNum (Fin 500)) #
        [(''targetUserId'', JNum (Fin 42)), (''action'', JStr ''reset'')])\<rparr>) =
   adjust_POST aliceEnv
     (resetRequest\<lparr>jsonBody := Members ((''amount'', JStr ''many'') #
        [(''targetUserId'', JNum (Fin 42)), (''action'', JStr ''reset'')])\<rparr>) \<and>
   statusCode (adjust_POST aliceEnv badGiftRequest) = 400 \<and>
   member [(''targetUserId'', JNum (Fin 42)), (''action'', JStr ''gift''), (''amount'', JNum (Fin (- 5)))]
     ''action'' \<in> {JStr ''gift'', JStr ''deduct''} \<and>
   map adjustAmount
     (concat (map (\<lambda>c. case c of AdjustTestnetCoins args \<Rightarrow> [args] | _ \<Rightarrow> [])
        (calls (adjust_POST aliceEnv resetRequest)))) = [JNum (Fin 0)]"
proof -
  let ?b = "[(''targetUserId'', JNum (Fin 42)), (''action'', JStr ''reset'')]"
  let ?g = "[(''targetUserId'', JNum (Fin 42)), (''action'', JStr ''gift''), (''amount'', JNum (Fin (- 5)))]"
  have r: "member ?b ''action'' = JStr ''reset''" by (simp add: member_def)
  have g: "jsonBody badGiftRequest = Members ?g" by (simp add: badGiftRequest_def)
  have c: "coinsAdminAuth aliceEnv badGiftRequest = Inr (JStr ''admin-1'', rootAdmin) \<and>
           truthy (member ?g ''targetUserId'') \<and>
           member ?g ''action'' \<in> {JStr ''gift'', JStr ''deduct''} \<and> invalidAmount (member ?g ''amount'')"
    by (simp add: coinsAdminAuth_def badGiftRequest_def aliceEnv_def startsWith_def decodeToken_def
        member_def invalidAmount_def)
  have k: "\<exists>args. calls (adjust_POST aliceEnv resetRequest) =
             [GetAdminByFirebaseUid (JStr ''admin-1''), SelectUser (JNum (Fin 42)), AdjustTestnetCoins args] \<and>
             adjustAction args = JStr ''reset''"
    by (simp add: adjust_POST_def coinsAdminAuth_def resetRequest_def aliceEnv_def startsWith_def
        decodeToken_def member_def invalidAmount_def perform_def rootAdmin_def Let_def)
  then obtain args where a: "calls (adjust_POST aliceEnv resetRequest) =
             [GetAdminByFirebaseUid (JStr ''admin-1''), SelectUser (JNum (Fin 42)), AdjustTestnetCoins args]"
    "adjustAction args = JStr ''reset''" by blast
  have z: "adjustAmount args = JNum (Fin 0)"
    using adjust_amount_validation [where e = aliceEnv and req = resetRequest] a by simp
  have e1: "adjust_POST aliceEnv (resetRequest\<lparr>jsonBody := Members ((''amount'', JNum (Fin 500)) # ?b)\<rparr>) =
            adjust_POST aliceEnv (resetRequest\<lparr>jsonBody := Members ((''amount'', JStr ''many'') # ?b)\<rparr>)"
    using adjust_amount_validation [where b = ?b and e = aliceEnv and req = resetRequest
        and a = "JNum (Fin 500)" and a' = "JStr ''many''"] r by blast
  have e2: "statusCode (adjust_POST aliceEnv badGiftRequest) = 400 \<and>
            errorText (adjust_POST aliceEnv badGiftRequest) =
              Some ''amount must be a positive number for gift/deduct''"
    using adjust_amount_validation [where b = ?g and e = aliceEnv and req = badGiftRequest
        and uid = "JStr ''admin-1''" and admin = rootAdmin] g c by blast
  have e3: "member ?g ''action'' \<in> {JStr ''gift'', JStr ''deduct''}"
    using adjust_amount_validation [where b = ?g and e = aliceEnv and req = badGiftRequest] g e2 by blast
  show ?thesis using e1 e2 e3 by (simp add: a z)
qed

end
